theory Spec2Isabelle
  imports Main
begin

section \<open>Python primitives used by the indexer\<close>

text \<open>
  Python integers are unbounded: they are modelled as \<open>int\<close>. Strings are lists of
  characters. The external libraries the indexer calls (the regular-expression engine,
  SHA-256, \<open>fnmatch\<close>, the clock) are parameters of the functions that call them.
\<close>

text \<open>\<open>content.split("\n")\<close>: the result always has at least one element.\<close>

fun str_split_newline :: "string \<Rightarrow> string list" where
  "str_split_newline [] = [[]]"
| "str_split_newline (c # cs) =
     (if c = CHR 0x0A then [] # str_split_newline cs
      else (case str_split_newline cs of
              [] \<Rightarrow> [[c]]
            | l # ls \<Rightarrow> (c # l) # ls))"

text \<open>\<open>"\n".join(chunk_lines)\<close>\<close>

fun str_join_newline :: "string list \<Rightarrow> string" where
  "str_join_newline [] = []"
| "str_join_newline [l] = l"
| "str_join_newline (l # ls) = l @ [CHR 0x0A] @ str_join_newline ls"

text \<open>
  \<open>xs[i:j]\<close>: a negative bound counts from the end, and both bounds are clipped to the
  list.
\<close>

definition py_slice :: "'a list \<Rightarrow> int \<Rightarrow> int \<Rightarrow> 'a list" where
  "py_slice xs i j =
     (let n = int (length xs);
          lo = (if i < 0 then max (i + n) 0 else min i n);
          hi = (if j < 0 then max (j + n) 0 else min j n)
      in take (nat (hi - lo)) (drop (nat lo) xs))"

text \<open>\<open>s.startswith(p)\<close>, \<open>s.endswith(p)\<close> and \<open>p in s\<close> on strings.\<close>

fun startswith :: "string \<Rightarrow> string \<Rightarrow> bool" where
  "startswith s [] = True"
| "startswith [] (p # ps) = False"
| "startswith (c # cs) (p # ps) = (c = p \<and> startswith cs ps)"

definition endswith :: "string \<Rightarrow> string \<Rightarrow> bool" where
  "endswith s p = startswith (rev s) (rev p)"

fun str_contains :: "string \<Rightarrow> string \<Rightarrow> bool" where
  "str_contains [] p = (p = [])"
| "str_contains (c # cs) p = (startswith (c # cs) p \<or> str_contains cs p)"

section \<open>chunker.py\<close>

definition LANGUAGE_MAP :: "(string \<times> string) list" where
  "LANGUAGE_MAP =
     [(''.ts'', ''typescript''), (''.tsx'', ''typescript''), (''.js'', ''javascript''),
      (''.jsx'', ''javascript''), (''.mjs'', ''javascript''), (''.cjs'', ''javascript''),
      (''.py'', ''python''), (''.pyi'', ''python''), (''.rs'', ''rust''), (''.go'', ''go''),
      (''.java'', ''java''), (''.kt'', ''kotlin''), (''.kts'', ''kotlin''), (''.rb'', ''ruby''),
      (''.php'', ''php''), (''.c'', ''c''), (''.h'', ''c''), (''.cpp'', ''cpp''),
      (''.hpp'', ''cpp''), (''.cc'', ''cpp''), (''.cs'', ''csharp''), (''.swift'', ''swift''),
      (''.scala'', ''scala''), (''.lua'', ''lua''), (''.sh'', ''shell''), (''.bash'', ''shell''),
      (''.zsh'', ''shell''), (''.sql'', ''sql''), (''.md'', ''markdown''), (''.json'', ''json''),
      (''.yaml'', ''yaml''), (''.yml'', ''yaml''), (''.toml'', ''toml''), (''.xml'', ''xml''),
      (''.html'', ''html''), (''.css'', ''css''), (''.scss'', ''scss''), (''.sass'', ''sass''),
      (''.less'', ''less''), (''.vue'', ''vue''), (''.svelte'', ''svelte'')]"

text \<open>The languages that have an entry in \<open>SYMBOL_PATTERNS\<close>.\<close>

definition SYMBOL_PATTERNS :: "string list" where
  "SYMBOL_PATTERNS = [''typescript'', ''javascript'', ''python'', ''rust'', ''go'', ''java'']"

text \<open>
  \<open>detect_language\<close>: the first extension of the table, in its order, that the file name
  ends with.
\<close>

fun detect_language_in :: "(string \<times> string) list \<Rightarrow> string \<Rightarrow> string option" where
  "detect_language_in [] filename = None"
| "detect_language_in ((ext, lang) # rest) filename =
     (if endswith filename ext then Some lang else detect_language_in rest filename)"

definition detect_language :: "string \<Rightarrow> string option" where
  "detect_language filename = detect_language_in LANGUAGE_MAP filename"

text \<open>
  \<open>extract_symbol\<close>. The parameter \<open>re_search lang content\<close> stands for
  \<open>SYMBOL_PATTERNS[lang].search(content)\<close> of the regular-expression library: group 1 of
  the first match, or \<open>None\<close>.
\<close>

definition extract_symbol ::
  "(string \<Rightarrow> string \<Rightarrow> string option) \<Rightarrow> string \<Rightarrow> string option
     \<Rightarrow> string option \<times> string option" where
  "extract_symbol re_search content language =
     (case language of
        None \<Rightarrow> (None, None)
      | Some lang \<Rightarrow>
          if lang = [] then (None, None)
          else if List.member SYMBOL_PATTERNS lang then
            (case re_search lang content of
               None \<Rightarrow> (None, None)
             | Some symbol \<Rightarrow>
                 (Some symbol,
                  Some (if list_ex (str_contains (take 100 content))
                             [''function '', ''fn '', ''def '', ''func '']
                        then ''function''
                        else if list_ex (str_contains (take 100 content))
                             [''class '', ''struct '', ''interface '', ''trait '']
                        then ''class''
                        else ''block'')))
          else (None, None))"

text \<open>The dictionary a chunk is yielded as.\<close>

record chunk =
  start_line :: int
  end_line :: int
  content :: string
  symbol :: "string option"
  kind :: string
  token_count :: int

text \<open>The body of one loop iteration up to the \<open>yield\<close>: the chunk built from a window.\<close>

definition make_chunk ::
  "(string \<Rightarrow> string \<Rightarrow> string option) \<Rightarrow> string option \<Rightarrow> int \<Rightarrow> int \<Rightarrow> string list
     \<Rightarrow> chunk" where
  "make_chunk re_search language start end chunk_lines =
     (let chunk_text = str_join_newline chunk_lines;
          sk = extract_symbol re_search chunk_text language
      in \<lparr> start_line = start + 1,
           end_line = end,
           content = chunk_text,
           symbol = fst sk,
           kind = (case snd sk of None \<Rightarrow> ''block''
                   | Some k \<Rightarrow> if k = [] then ''block'' else k),
           token_count = int (length chunk_text) div 4 \<rparr>)"

text \<open>
  The \<open>while start < total_lines\<close> loop of \<open>chunk_content\<close>. The result has one entry for
  every time the loop body is entered: \<open>Some c\<close> when that iteration yields the chunk
  \<open>c\<close>, \<open>None\<close> when it yields nothing (the window is discarded, or the iteration leaves
  at the \<open>start == prev_start\<close> guard).
\<close>

function chunk_loop ::
  "(string \<Rightarrow> string \<Rightarrow> string option) \<Rightarrow> string list \<Rightarrow> int \<Rightarrow> int \<Rightarrow> int
     \<Rightarrow> string option \<Rightarrow> int \<Rightarrow> int \<Rightarrow> chunk option list" where
  "chunk_loop re_search lines max_lines overlap min_lines language start prev_start =
     (if start < int (length lines) then
        if start = prev_start then [None]
        else
          (let end = min (start + max_lines) (int (length lines));
               chunk_lines = py_slice lines start end;
               out = (if min_lines \<le> int (length chunk_lines) \<or> start = 0
                      then Some (make_chunk re_search language start end chunk_lines)
                      else None)
           in if int (length lines) \<le> end then [out]
              else out # chunk_loop re_search lines max_lines overlap min_lines language
                           (if end - overlap \<le> start then start + 1 else end - overlap)
                           start)
      else [])"
  by pat_completeness auto
termination
  by (relation "measure (\<lambda>(re_search, lines, max_lines, overlap, min_lines, language,
                           start, prev_start). nat (int (length lines) - start))")
     (auto simp: Let_def)

declare chunk_loop.simps [simp del]

text \<open>
  \<open>chunk_content\<close>, as the list of its loop iterations and as the sequence of chunks the
  generator yields.
\<close>

definition chunk_content_iterations ::
  "(string \<Rightarrow> string \<Rightarrow> string option) \<Rightarrow> string \<Rightarrow> int \<Rightarrow> int \<Rightarrow> int \<Rightarrow> string option
     \<Rightarrow> chunk option list" where
  "chunk_content_iterations re_search text max_lines overlap min_lines language =
     (let lines = str_split_newline text
      in if length lines = 0 then []
         else chunk_loop re_search lines max_lines overlap min_lines language 0 (- 1))"

definition chunk_content ::
  "(string \<Rightarrow> string \<Rightarrow> string option) \<Rightarrow> string \<Rightarrow> int \<Rightarrow> int \<Rightarrow> int \<Rightarrow> string option
     \<Rightarrow> chunk list" where
  "chunk_content re_search text max_lines overlap min_lines language =
     List.map_filter (\<lambda>out. out)
       (chunk_content_iterations re_search text max_lines overlap min_lines language)"

section \<open>database.py\<close>

text \<open>
  The rows of the tables \<open>files\<close> and \<open>chunks\<close>. A nullable column is an \<open>option\<close>.
\<close>

record files_row =
  f_id :: int
  f_path :: string
  f_hash :: string
  f_mtime :: "int option"
  f_size :: "int option"
  f_lang :: "string option"
  f_indexed_at :: int
  f_project_id :: "int option"
  f_ignored :: bool

record chunks_row =
  c_id :: int
  c_file_id :: int
  c_start_line :: int
  c_end_line :: int
  c_content :: string
  c_symbol :: "string option"
  c_kind :: "string option"

text \<open>
  The content of the database file: the two tables, the \<open>AUTOINCREMENT\<close> counters of
  their primary keys, and the rows \<open>(rowid, content)\<close> of the full-text table
  \<open>chunks_fts\<close>, which the triggers \<open>chunks_ai\<close> and \<open>chunks_ad\<close> keep in step with
  \<open>chunks\<close>.
\<close>

record database =
  files :: "files_row list"
  chunks :: "chunks_row list"
  chunks_fts :: "(int \<times> string) list"
  files_seq :: int
  chunks_seq :: int

text \<open>
  A \<open>sqlite3.Connection\<close>: the statements of the open transaction act on \<open>working\<close>,
  which the connection itself reads; \<open>committed\<close> is what the database file holds.
  \<open>conn.commit()\<close> copies the first to the second. Closing the connection without a
  commit discards the open transaction, so a connection opened afterwards starts from the
  committed content.
\<close>

record connection =
  working :: database
  committed :: database

definition commit :: "connection \<Rightarrow> connection" where
  "commit conn = conn\<lparr>committed := working conn\<rparr>"

definition close_and_reopen :: "connection \<Rightarrow> connection" where
  "close_and_reopen conn = \<lparr> working = committed conn, committed = committed conn \<rparr>"

text \<open>
  \<open>get_file_by_path\<close>: the first row with that path. The source selects the columns
  \<open>id, path, hash, size, lang\<close> of it.
\<close>

definition get_file_by_path :: "connection \<Rightarrow> string \<Rightarrow> files_row option" where
  "get_file_by_path conn path = find (\<lambda>row. f_path row = path) (files (working conn))"

text \<open>
  \<open>upsert_file\<close>: \<open>now\<close> is the clock reading \<open>int(time.time() * 1000)\<close>. The
  \<open>UPDATE\<close> is tried first; when it changed no row, a new row is inserted.
\<close>

definition upsert_file ::
  "connection \<Rightarrow> int \<Rightarrow> string \<Rightarrow> string \<Rightarrow> int \<Rightarrow> string option \<Rightarrow> int option \<Rightarrow> int option
     \<Rightarrow> connection \<times> int" where
  "upsert_file conn now path content_hash size' lang mtime project_id =
     (let db = working conn;
          rowcount = length (filter (\<lambda>row. f_path row = path) (files db))
      in if rowcount > 0 then
           (let db' = db\<lparr>files :=
                        map (\<lambda>row. if f_path row = path
                                   then row\<lparr>f_hash := content_hash, f_mtime := mtime,
                                            f_size := Some size', f_lang := lang,
                                            f_indexed_at := now, f_project_id := project_id\<rparr>
                                   else row)
                            (files db)\<rparr>
            in (conn\<lparr>working := db'\<rparr>,
                (case find (\<lambda>row. f_path row = path) (files db') of
                   Some row \<Rightarrow> f_id row
                 | None \<Rightarrow> 0)))
         else
           (let new_id = files_seq db + 1;
                row = \<lparr> f_id = new_id, f_path = path, f_hash = content_hash, f_mtime = mtime,
                        f_size = Some size', f_lang = lang, f_indexed_at = now,
                        f_project_id = project_id, f_ignored = False \<rparr>
            in (conn\<lparr>working := db\<lparr>files := files db @ [row], files_seq := new_id\<rparr>\<rparr>,
                new_id)))"

text \<open>\<open>delete_chunks_for_file\<close>, with the trigger \<open>chunks_ad\<close>.\<close>

definition delete_chunks_for_file :: "connection \<Rightarrow> int \<Rightarrow> connection" where
  "delete_chunks_for_file conn file_id =
     (let db = working conn;
          deleted = map c_id (filter (\<lambda>row. c_file_id row = file_id) (chunks db))
      in conn\<lparr>working :=
           db\<lparr>chunks := filter (\<lambda>row. c_file_id row \<noteq> file_id) (chunks db),
              chunks_fts := filter (\<lambda>entry. \<not> List.member deleted (fst entry))
                              (chunks_fts db)\<rparr>\<rparr>)"

text \<open>\<open>insert_chunk\<close>, with the trigger \<open>chunks_ai\<close>.\<close>

definition insert_chunk ::
  "connection \<Rightarrow> int \<Rightarrow> int \<Rightarrow> int \<Rightarrow> string \<Rightarrow> string option \<Rightarrow> string option
     \<Rightarrow> connection \<times> int" where
  "insert_chunk conn file_id start_line' end_line' content' symbol' kind' =
     (let db = working conn;
          new_id = chunks_seq db + 1;
          row = \<lparr> c_id = new_id, c_file_id = file_id, c_start_line = start_line',
                  c_end_line = end_line', c_content = content', c_symbol = symbol',
                  c_kind = kind' \<rparr>
      in (conn\<lparr>working :=
            db\<lparr>chunks := chunks db @ [row],
               chunks_fts := chunks_fts db @ [(new_id, content')],
               chunks_seq := new_id\<rparr>\<rparr>,
          new_id))"

text \<open>\<open>clear_index\<close>\<close>

definition clear_index :: "connection \<Rightarrow> connection" where
  "clear_index conn =
     commit (conn\<lparr>working := (working conn)\<lparr>chunks := [], chunks_fts := [], files := []\<rparr>\<rparr>)"

text \<open>
  \<open>search_fts\<close>: the value of \<open>escaped_query\<close>, which is bound to the \<open>MATCH\<close> operand,
  and the function itself. The parameter \<open>fts5_select db q limit offset\<close> stands for
  SQLite running the \<open>SELECT\<close> with the operand \<open>q\<close>.
\<close>

definition escaped_query :: "string \<Rightarrow> string" where
  "escaped_query query =
     (if List.member query CHR '' '' then [CHR 0x22] @ query @ [CHR 0x22] else query)"

definition search_fts ::
  "(database \<Rightarrow> string \<Rightarrow> int \<Rightarrow> int \<Rightarrow> 'r list) \<Rightarrow> connection \<Rightarrow> string \<Rightarrow> int \<Rightarrow> int
     \<Rightarrow> 'r list" where
  "search_fts fts5_select conn query limit offset =
     fts5_select (working conn) (escaped_query query) limit offset"

section \<open>scanner.py\<close>

subsection \<open>The ignore policy\<close>

definition DEFAULT_IGNORE :: "string list" where
  "DEFAULT_IGNORE =
     [''node_modules'', ''.npm'', ''.yarn'', ''.pnpm-store'', ''bower_components'',
      ''vendor'',
      ''__pycache__'', ''.pytest_cache'', ''.mypy_cache'', ''.ruff_cache'', ''venv'', ''.venv'',
      ''env'', ''.env'', ''site-packages'', ''.tox'', ''.nox'', ''eggs'', ''*.egg-info'',
      ''dist'', ''build'', ''out'', ''target'', ''_build'', ''public/build'',
      ''.next'', ''.nuxt'', ''.output'', ''.vinxi'', ''.svelte-kit'', ''.vercel'', ''.netlify'',
      ''var'', ''storage'', ''bootstrap/cache'',
      ''.idea'', ''.vscode'', ''.vs'', ''*.sublime-workspace'',
      ''.git'', ''.svn'', ''.hg'',
      ''coverage'', ''.nyc_output'', ''htmlcov'',
      ''.cache'', ''.turbo'', ''.parcel-cache'', ''.webpack'', ''.rollup.cache'',
      ''.eslintcache'', ''.stylelintcache'',
      ''logs'', ''*.log'',
      ''tmp'', ''temp'', ''.tmp'',
      ''.DS_Store'', ''Thumbs.db'',
      ''.docker'']"

definition IGNORE_EXTENSIONS :: "string list" where
  "IGNORE_EXTENSIONS =
     [''.min.js'', ''.min.css'', ''.bundle.js'', ''.map'', ''.db'', ''.db-shm'', ''.db-wal'',
      ''.pyc'', ''.pyo'', ''.so'', ''.dylib'', ''.dll'', ''.exe'', ''.bin'',
      ''.png'', ''.jpg'', ''.jpeg'', ''.gif'', ''.ico'', ''.svg'',
      ''.woff'', ''.woff2'', ''.ttf'', ''.eot'',
      ''.mp3'', ''.mp4'', ''.wav'', ''.avi'', ''.mov'',
      ''.pdf'', ''.zip'', ''.tar'', ''.gz'', ''.rar'', ''.7z'']"

text \<open>
  \<open>str.lower()\<close> on the characters a \<open>char\<close> can hold (code points below 256), and
  \<open>name.rfind(".")\<close>.
\<close>

definition char_lower :: "char \<Rightarrow> char" where
  "char_lower c =
     (let n = (of_char c :: nat)
      in if (65 \<le> n \<and> n \<le> 90) \<or> (192 \<le> n \<and> n \<le> 222 \<and> n \<noteq> 215)
         then char_of (n + 32) else c)"

definition str_lower :: "string \<Rightarrow> string" where
  "str_lower s = map char_lower s"

fun rfind_char :: "char \<Rightarrow> string \<Rightarrow> nat option" where
  "rfind_char c [] = None"
| "rfind_char c (x # xs) =
     (case rfind_char c xs of
        Some i \<Rightarrow> Some (Suc i)
      | None \<Rightarrow> if x = c then Some 0 else None)"

text \<open>
  \<open>Path.suffix\<close> of pathlib: the part of the name from its last dot, unless that dot is
  the first or the last character of the name.
\<close>

definition path_suffix :: "string \<Rightarrow> string" where
  "path_suffix name =
     (case rfind_char CHR ''.'' name of
        None \<Rightarrow> []
      | Some i \<Rightarrow> if 0 < i \<and> i + 1 < length name then drop i name else [])"

text \<open>\<open>pattern.replace("**", "*")\<close>\<close>

fun replace_double_star :: "string \<Rightarrow> string" where
  "replace_double_star (a # b # cs) =
     (if a = CHR ''*'' \<and> b = CHR ''*'' then CHR ''*'' # replace_double_star cs
      else a # replace_double_star (b # cs))"
| "replace_double_star cs = cs"

text \<open>
  \<open>should_ignore\<close>. The parameter \<open>fnmatch name pattern\<close> stands for \<open>fnmatch.fnmatch\<close>
  of the standard library.
\<close>

definition should_ignore ::
  "(string \<Rightarrow> string \<Rightarrow> bool) \<Rightarrow> string \<Rightarrow> string \<Rightarrow> string list \<Rightarrow> bool" where
  "should_ignore fnmatch name rel_path gitignore_patterns =
     (if List.member DEFAULT_IGNORE name then True
      else list_ex (\<lambda>pattern.
             fnmatch name pattern
             \<or> fnmatch rel_path pattern
             \<or> (str_contains pattern ''**''
                \<and> fnmatch rel_path (replace_double_star pattern)))
           gitignore_patterns)"

subsection \<open>The walker\<close>

text \<open>
  What the filesystem answers for one file: \<open>stat\<close> gives the size in bytes and the
  modification time in milliseconds, or raises an \<open>OSError\<close> with a message;
  \<open>read_text\<close> gives the text, or raises.
\<close>

datatype py_exception = UnicodeDecodeError | OtherException string

record file_info =
  stat :: "string + (int \<times> int)"
  read_text :: "py_exception + string"

text \<open>
  A directory entry: a regular file, a directory with its entries, a directory whose
  listing raises \<open>PermissionError\<close>, or an entry that is neither a file nor a directory.
\<close>

datatype fs_entry =
    File string file_info
  | Dir string "fs_entry list"
  | LockedDir string
  | Special string

text \<open>
  The workspace root: the patterns \<open>parse_gitignore\<close> returns for its \<open>.gitignore\<close> (none
  when the file does not exist), and its entries (\<open>None\<close> when listing the root raises
  \<open>PermissionError\<close>).
\<close>

record workspace =
  gitignore_patterns :: "string list"
  root_entries :: "fs_entry list option"

text \<open>A path the walker yields, with what the scan then asks of it.\<close>

record walked_file =
  rel_path :: string
  name :: string
  info :: file_info

definition relative_to_root :: "string \<Rightarrow> string \<Rightarrow> string" where
  "relative_to_root parent_rel entry_name =
     (if parent_rel = [] then entry_name else parent_rel @ ''/'' @ entry_name)"

text \<open>
  The inner function \<open>_walk\<close> of \<open>walk_files\<close>: \<open>walk_entries\<close> is its \<open>for\<close> loop over the
  entries of a directory at depth \<open>depth\<close>, \<open>walk_entry\<close> the loop body. The test
  \<open>depth > max_depth\<close> that opens \<open>_walk\<close> is made where \<open>_walk\<close> is called.
\<close>

fun walk_entries ::
  "(string \<Rightarrow> string \<Rightarrow> bool) \<Rightarrow> string list \<Rightarrow> int \<Rightarrow> string \<Rightarrow> int \<Rightarrow> fs_entry list
     \<Rightarrow> walked_file list"
and walk_entry ::
  "(string \<Rightarrow> string \<Rightarrow> bool) \<Rightarrow> string list \<Rightarrow> int \<Rightarrow> string \<Rightarrow> int \<Rightarrow> fs_entry
     \<Rightarrow> walked_file list" where
  "walk_entries fnmatch patterns max_depth parent_rel depth [] = []"
| "walk_entries fnmatch patterns max_depth parent_rel depth (entry # entries) =
     walk_entry fnmatch patterns max_depth parent_rel depth entry
     @ walk_entries fnmatch patterns max_depth parent_rel depth entries"
| "walk_entry fnmatch patterns max_depth parent_rel depth (Dir entry_name sub) =
     (if startswith entry_name ''.'' then []
      else if should_ignore fnmatch entry_name (relative_to_root parent_rel entry_name) patterns
      then []
      else if depth + 1 > max_depth then []
      else walk_entries fnmatch patterns max_depth (relative_to_root parent_rel entry_name)
             (depth + 1) sub)"
| "walk_entry fnmatch patterns max_depth parent_rel depth (LockedDir entry_name) = []"
| "walk_entry fnmatch patterns max_depth parent_rel depth (File entry_name file) =
     (if startswith entry_name ''.'' then []
      else if List.member IGNORE_EXTENSIONS (str_lower (path_suffix entry_name)) then []
      else if should_ignore fnmatch entry_name (relative_to_root parent_rel entry_name) patterns
      then []
      else [\<lparr> rel_path = relative_to_root parent_rel entry_name, name = entry_name,
               info = file \<rparr>])"
| "walk_entry fnmatch patterns max_depth parent_rel depth (Special entry_name) = []"

definition walk_files ::
  "(string \<Rightarrow> string \<Rightarrow> bool) \<Rightarrow> workspace \<Rightarrow> int \<Rightarrow> walked_file list" where
  "walk_files fnmatch root max_depth =
     (if 0 > max_depth then []
      else case root_entries root of
             None \<Rightarrow> []
           | Some entries \<Rightarrow>
               walk_entries fnmatch (gitignore_patterns root) max_depth [] 0 entries)"

subsection \<open>The scan\<close>

text \<open>
  \<open>hash_content\<close>. The parameter \<open>sha256_hexdigest content\<close> stands for
  \<open>hashlib.sha256(content.encode()).hexdigest()\<close>.
\<close>

definition hash_content :: "(string \<Rightarrow> string) \<Rightarrow> string \<Rightarrow> string" where
  "hash_content sha256_hexdigest content' = take 16 (sha256_hexdigest content')"

text \<open>The dictionary \<open>scan_workspace_sync\<close> returns; the key \<open>stopped_early\<close> is either
  absent (\<open>False\<close>) or \<open>True\<close>.\<close>

record scan_result =
  files_scanned :: int
  files_indexed :: int
  files_skipped :: int
  chunks_created :: int
  errors :: "(string \<times> string) list"
  stopped_early :: bool
  duration_ms :: int

text \<open>
  The calls the loop body makes on the connection, and what a run does not decide itself:
  for the file at a relative path, \<open>db_raises path call\<close> is the message of the exception
  that call raises while that file is processed, if it raises (a call that raises leaves
  the connection as it was), and \<open>clock_ms path\<close> is the clock reading \<open>upsert_file\<close>
  takes for it; \<open>elapsed_ms\<close> is the duration the run measures.
\<close>

datatype db_call = GetFileByPath | UpsertFile | DeleteChunks | InsertChunk nat | Commit

record run_env =
  db_raises :: "string \<Rightarrow> db_call \<Rightarrow> string option"
  clock_ms :: "string \<Rightarrow> int"
  elapsed_ms :: int

text \<open>
  The \<open>for chunk in chunks\<close> loop: \<open>k\<close> is the number of chunks already inserted for the
  file. The first component of the result is the message of the exception that ended the
  loop, if one did.
\<close>

fun insert_chunks ::
  "(db_call \<Rightarrow> string option) \<Rightarrow> int \<Rightarrow> nat \<Rightarrow> chunk list \<Rightarrow> connection \<Rightarrow> scan_result
     \<Rightarrow> string option \<times> connection \<times> scan_result" where
  "insert_chunks raises file_id k [] conn result = (None, conn, result)"
| "insert_chunks raises file_id k (c # cs) conn result =
     (case raises (InsertChunk k) of
        Some msg \<Rightarrow> (Some msg, conn, result)
      | None \<Rightarrow>
          insert_chunks raises file_id (Suc k) cs
            (fst (insert_chunk conn file_id (start_line c) (end_line c) (content c)
                    (symbol c) (Some (kind c))))
            (result\<lparr>chunks_created := chunks_created result + 1\<rparr>))"

text \<open>
  The \<open>try\<close> block of the loop body for one file. The first component of the result is
  the exception that left the block, \<open>None\<close> when the block ran to its end or left by
  \<open>continue\<close>; the connection and the counters are as the block left them.
\<close>

definition try_block ::
  "(string \<Rightarrow> string \<Rightarrow> string option) \<Rightarrow> (string \<Rightarrow> string) \<Rightarrow> run_env \<Rightarrow> int \<Rightarrow> int
     \<Rightarrow> int option \<Rightarrow> walked_file \<Rightarrow> connection \<Rightarrow> scan_result
     \<Rightarrow> py_exception option \<times> connection \<times> scan_result" where
  "try_block re_search sha256_hexdigest env max_file_size max_chunk_lines project_id
     file_path conn result =
     (let raises = db_raises env (rel_path file_path)
      in case stat (info file_path) of
           Inl msg \<Rightarrow> (Some (OtherException msg), conn, result)
         | Inr (file_size, file_mtime) \<Rightarrow>
             if file_size > max_file_size
             then (None, conn, result\<lparr>files_skipped := files_skipped result + 1\<rparr>)
             else
               (case read_text (info file_path) of
                  Inl e \<Rightarrow> (Some e, conn, result)
                | Inr content' \<Rightarrow>
                    (let content_hash = hash_content sha256_hexdigest content'
                     in case raises GetFileByPath of
                          Some msg \<Rightarrow> (Some (OtherException msg), conn, result)
                        | None \<Rightarrow>
                            (let existing = get_file_by_path conn (rel_path file_path)
                             in if (case existing of
                                      None \<Rightarrow> False
                                    | Some row \<Rightarrow> f_hash row = content_hash)
                                then (None, conn,
                                      result\<lparr>files_skipped := files_skipped result + 1\<rparr>)
                                else
                                  (let lang = detect_language (name file_path)
                                   in case raises UpsertFile of
                                        Some msg \<Rightarrow> (Some (OtherException msg), conn, result)
                                      | None \<Rightarrow>
                                          (let (conn1, file_id) =
                                                 upsert_file conn
                                                   (clock_ms env (rel_path file_path))
                                                   (rel_path file_path) content_hash file_size
                                                   lang (Some file_mtime) project_id
                                           in case (if existing = None then None
                                                    else raises DeleteChunks) of
                                                Some msg \<Rightarrow>
                                                  (Some (OtherException msg), conn1, result)
                                              | None \<Rightarrow>
                                                  (let conn2 =
                                                         (if existing = None then conn1
                                                          else delete_chunks_for_file conn1
                                                                 file_id)
                                                   in case insert_chunks raises file_id 0
                                                             (chunk_content re_search content'
                                                                max_chunk_lines 5 3 None)
                                                             conn2 result of
                                                        (Some msg, conn3, result3) \<Rightarrow>
                                                          (Some (OtherException msg), conn3,
                                                           result3)
                                                      | (None, conn3, result3) \<Rightarrow>
                                                          (let result4 = result3
                                                                 \<lparr>files_indexed :=
                                                                    files_indexed result3 + 1\<rparr>
                                                           in case raises Commit of
                                                                Some msg \<Rightarrow>
                                                                  (Some (OtherException msg),
                                                                   conn3, result4)
                                                              | None \<Rightarrow>
                                                                  (None, commit conn3,
                                                                   result4)))))))))"

text \<open>The loop body after \<open>files_scanned\<close> is incremented: the \<open>try\<close> block and its two
  handlers.\<close>

definition process_file ::
  "(string \<Rightarrow> string \<Rightarrow> string option) \<Rightarrow> (string \<Rightarrow> string) \<Rightarrow> run_env \<Rightarrow> int \<Rightarrow> int
     \<Rightarrow> int option \<Rightarrow> walked_file \<Rightarrow> connection \<Rightarrow> scan_result
     \<Rightarrow> connection \<times> scan_result" where
  "process_file re_search sha256_hexdigest env max_file_size max_chunk_lines project_id
     file_path conn result =
     (case try_block re_search sha256_hexdigest env max_file_size max_chunk_lines project_id
             file_path conn result of
        (None, conn', result') \<Rightarrow> (conn', result')
      | (Some UnicodeDecodeError, conn', result') \<Rightarrow>
          (conn', result'\<lparr>files_skipped := files_skipped result' + 1\<rparr>)
      | (Some (OtherException msg), conn', result') \<Rightarrow>
          (conn', result'\<lparr>errors := errors result' @ [(rel_path file_path, msg)]\<rparr>))"

text \<open>The \<open>for file_path in walk_files(root_path)\<close> loop.\<close>

fun scan_loop ::
  "(string \<Rightarrow> string \<Rightarrow> string option) \<Rightarrow> (string \<Rightarrow> string) \<Rightarrow> run_env \<Rightarrow> int \<Rightarrow> int \<Rightarrow> int
     \<Rightarrow> int option \<Rightarrow> walked_file list \<Rightarrow> connection \<Rightarrow> scan_result
     \<Rightarrow> connection \<times> scan_result" where
  "scan_loop re_search sha256_hexdigest env max_files max_file_size max_chunk_lines project_id
     [] conn result = (conn, result)"
| "scan_loop re_search sha256_hexdigest env max_files max_file_size max_chunk_lines project_id
     (file_path # rest) conn result =
     (if files_scanned result \<ge> max_files then (conn, result\<lparr>stopped_early := True\<rparr>)
      else
        (case process_file re_search sha256_hexdigest env max_file_size max_chunk_lines
                project_id file_path conn
                (result\<lparr>files_scanned := files_scanned result + 1\<rparr>) of
           (conn', result') \<Rightarrow>
             scan_loop re_search sha256_hexdigest env max_files max_file_size max_chunk_lines
               project_id rest conn' result'))"

definition initial_result :: scan_result where
  "initial_result =
     \<lparr> files_scanned = 0, files_indexed = 0, files_skipped = 0, chunks_created = 0,
       errors = [], stopped_early = False, duration_ms = 0 \<rparr>"

text \<open>
  \<open>scan_workspace_sync\<close>: the connection as the run leaves it, and the returned
  dictionary. The walker is called with its default \<open>max_depth = 20\<close>.
\<close>

definition scan_workspace_sync ::
  "(string \<Rightarrow> string \<Rightarrow> string option) \<Rightarrow> (string \<Rightarrow> string) \<Rightarrow> (string \<Rightarrow> string \<Rightarrow> bool)
     \<Rightarrow> run_env \<Rightarrow> connection \<Rightarrow> workspace \<Rightarrow> int \<Rightarrow> int \<Rightarrow> int \<Rightarrow> int option
     \<Rightarrow> connection \<times> scan_result" where
  "scan_workspace_sync re_search sha256_hexdigest fnmatch env conn root_path max_files
     max_file_size max_chunk_lines project_id =
     (case scan_loop re_search sha256_hexdigest env max_files max_file_size max_chunk_lines
             project_id (walk_files fnmatch root_path 20) conn initial_result of
        (conn', result) \<Rightarrow> (conn', result\<lparr>duration_ms := elapsed_ms env\<rparr>))"

section \<open>Notions used in the statements\<close>

text \<open>The fingerprint the index holds for a path, as the connection sees it.\<close>

definition stored_hash :: "connection \<Rightarrow> string \<Rightarrow> string option" where
  "stored_hash conn path = map_option f_hash (get_file_by_path conn path)"

text \<open>
  \<open>later_connection path conn conn'\<close>: the connection \<open>conn'\<close> comes from \<open>conn\<close> by
  processing files other than the one at \<open>path\<close>, in any runs with any parameters, and
  by closing the connection and opening a new one, in any order.
\<close>

inductive later_connection :: "string \<Rightarrow> connection \<Rightarrow> connection \<Rightarrow> bool"
  for path :: string where
    same: "later_connection path conn conn"
  | other_file:
      "later_connection path conn conn' \<Longrightarrow> rel_path file_path \<noteq> path \<Longrightarrow>
       process_file re_search sha256_hexdigest env max_file_size max_chunk_lines project_id
         file_path conn' result = (conn'', result') \<Longrightarrow>
       later_connection path conn conn''"
  | reopened:
      "later_connection path conn conn' \<Longrightarrow>
       later_connection path conn (close_and_reopen conn')"

text \<open>
  The number of lines of a text in the ordinary sense: every newline character ends a
  line, and characters after the last newline form one more line.
\<close>

definition line_count :: "string \<Rightarrow> nat" where
  "line_count text =
     length (filter (\<lambda>c. c = CHR 0x0A) text)
     + (if text = [] \<or> last text = CHR 0x0A then 0 else 1)"

text \<open>
  How the full-text engine reads a \<open>MATCH\<close> operand that is one quoted string, after the
  FTS5 query syntax: a string starts and ends with a double quote, and a double quote
  inside it is written twice. \<open>fts5_string_body\<close> reads the operand after its opening
  quote; \<open>fts5_single_phrase operand\<close> is the text of the string when the whole operand is
  exactly one string, and \<open>None\<close> otherwise.
\<close>

fun fts5_string_body :: "string \<Rightarrow> string option" where
  "fts5_string_body [] = None"
| "fts5_string_body (c # cs) =
     (if c = CHR 0x22 then
        (case cs of
           [] \<Rightarrow> Some []
         | d # ds \<Rightarrow> if d = CHR 0x22 then map_option ((#) (CHR 0x22)) (fts5_string_body ds)
                     else None)
      else map_option ((#) c) (fts5_string_body cs))"

definition fts5_single_phrase :: "string \<Rightarrow> string option" where
  "fts5_single_phrase operand =
     (case operand of
        [] \<Rightarrow> None
      | c # cs \<Rightarrow> if c = CHR 0x22 then fts5_string_body cs else None)"

text \<open>
  What is asked of the full-text engine: given an operand that is one quoted string, it
  returns only rows whose content contains the text of the string as a phrase.
  \<open>content_of\<close> reads the content of a returned row, \<open>contains_phrase\<close> is the engine's
  own test, which depends on its tokenizer.
\<close>

definition phrase_engine ::
  "(database \<Rightarrow> string \<Rightarrow> int \<Rightarrow> int \<Rightarrow> 'r list) \<Rightarrow> ('r \<Rightarrow> string) \<Rightarrow> (string \<Rightarrow> string \<Rightarrow> bool)
     \<Rightarrow> bool" where
  "phrase_engine fts5_select content_of contains_phrase =
     (\<forall>db operand body limit offset.
        fts5_single_phrase operand = Some body \<longrightarrow>
        list_all (\<lambda>row. contains_phrase (content_of row) body)
          (fts5_select db operand limit offset))"

section \<open>Concrete inputs\<close>

text \<open>
  Inputs on which the definitions are evaluated below: a regular-expression engine that
  finds no match, a text of three lines, a text of 200 lines \<open>x\<close> with no newline after
  the last one, and the same text with a newline after the last line.
\<close>

definition no_match :: "string \<Rightarrow> string \<Rightarrow> string option" where
  "no_match lang content' = None"

definition three_lines :: string where
  "three_lines = [CHR ''a'', CHR 0x0A, CHR ''b'', CHR 0x0A, CHR ''c'']"

definition two_hundred_lines :: string where
  "two_hundred_lines = concat (replicate 199 [CHR ''x'', CHR 0x0A]) @ [CHR ''x'']"

definition two_hundred_terminated_lines :: string where
  "two_hundred_terminated_lines = two_hundred_lines @ [CHR 0x0A]"

text \<open>
  A query whose only whitespace is a tab, and the whitespace characters of ASCII
  (\<open>str.isspace\<close>), as the specification's notion of a query containing whitespace.
\<close>

definition is_whitespace :: "char \<Rightarrow> bool" where
  "is_whitespace c =
     List.member [CHR '' '', CHR 0x09, CHR 0x0A, CHR 0x0B, CHR 0x0C, CHR 0x0D] c"

definition tab_query :: string where
  "tab_query = [CHR ''f'', CHR ''o'', CHR ''o'', CHR 0x09, CHR ''b'', CHR ''a'', CHR ''r'']"

text \<open>A query that holds a space and a double quote: \<open>a "b\<close>.\<close>

definition quote_query :: string where
  "quote_query = [CHR ''a'', CHR '' '', CHR 0x22, CHR ''b'']"

text \<open>
  A full-text engine that, for an operand that is one quoted string, returns the chunks
  whose content contains the text of the string, and nothing for any other operand; an
  index of two chunks, \<open>say foo bar\<close> and \<open>bar foo\<close>; and an empty index.
\<close>

definition substring_select :: "database \<Rightarrow> string \<Rightarrow> int \<Rightarrow> int \<Rightarrow> chunks_row list" where
  "substring_select db operand limit offset =
     (case fts5_single_phrase operand of
        None \<Rightarrow> []
      | Some body \<Rightarrow> filter (\<lambda>row. str_contains (c_content row) body) (chunks db))"

definition two_chunk_database :: database where
  "two_chunk_database =
     \<lparr> files = [],
       chunks = [\<lparr> c_id = 1, c_file_id = 1, c_start_line = 1, c_end_line = 1,
                   c_content = ''say foo bar'', c_symbol = None, c_kind = None \<rparr>,
                 \<lparr> c_id = 2, c_file_id = 1, c_start_line = 2, c_end_line = 2,
                   c_content = ''bar foo'', c_symbol = None, c_kind = None \<rparr>],
       chunks_fts = [(1, ''say foo bar''), (2, ''bar foo'')],
       files_seq = 1, chunks_seq = 2 \<rparr>"

definition two_chunk_connection :: connection where
  "two_chunk_connection = \<lparr> working = two_chunk_database, committed = two_chunk_database \<rparr>"

definition empty_database :: database where
  "empty_database =
     \<lparr> files = [], chunks = [], chunks_fts = [], files_seq = 0, chunks_seq = 0 \<rparr>"

definition empty_connection :: connection where
  "empty_connection = \<lparr> working = empty_database, committed = empty_database \<rparr>"

text \<open>
  A file of one byte holding the text \<open>x\<close>, and a workspace without \<open>.gitignore\<close> whose
  only entry is such a file named \<open>app.min.js\<close>.
\<close>

definition example_info :: file_info where
  "example_info = \<lparr> stat = Inr (1, 0), read_text = Inr ''x'' \<rparr>"

definition min_js_workspace :: workspace where
  "min_js_workspace =
     \<lparr> gitignore_patterns = [], root_entries = Some [File ''app.min.js'' example_info] \<rparr>"

text \<open>
  A digest that returns its input, a pattern matcher that matches nothing, and
  workspaces without \<open>.gitignore\<close> that hold one and two such files.
\<close>

definition example_digest :: "string \<Rightarrow> string" where
  "example_digest content' = content'"

definition never_matches :: "string \<Rightarrow> string \<Rightarrow> bool" where
  "never_matches entry_name pattern = False"

definition one_file_workspace :: workspace where
  "one_file_workspace =
     \<lparr> gitignore_patterns = [], root_entries = Some [File ''a.py'' example_info] \<rparr>"

definition two_file_workspace :: workspace where
  "two_file_workspace =
     \<lparr> gitignore_patterns = [],
       root_entries = Some [File ''a.py'' example_info, File ''b.py'' example_info] \<rparr>"

definition a_py :: walked_file where
  "a_py = \<lparr> rel_path = ''a.py'', name = ''a.py'', info = example_info \<rparr>"

definition b_py :: walked_file where
  "b_py = \<lparr> rel_path = ''b.py'', name = ''b.py'', info = example_info \<rparr>"

text \<open>
  Three runs: one in which no database call raises, one in which every \<open>conn.commit()\<close>
  raises, and one in which the first \<open>insert_chunk\<close> for \<open>a.py\<close> raises.
\<close>

definition no_faults :: run_env where
  "no_faults = \<lparr> db_raises = (\<lambda>path call. None), clock_ms = (\<lambda>path. 0), elapsed_ms = 0 \<rparr>"

definition commit_fails :: run_env where
  "commit_fails =
     \<lparr> db_raises = (\<lambda>path call. if call = Commit then Some ''database or disk is full''
                                  else None),
       clock_ms = (\<lambda>path. 0), elapsed_ms = 0 \<rparr>"

definition insert_fails :: run_env where
  "insert_fails =
     \<lparr> db_raises = (\<lambda>path call. if path = ''a.py'' \<and> call = InsertChunk 0
                                  then Some ''database or disk is full'' else None),
       clock_ms = (\<lambda>path. 0), elapsed_ms = 0 \<rparr>"

text \<open>
  A first run over the two files on an empty index, in which the first \<open>insert_chunk\<close>
  for \<open>a.py\<close> raises, and a second run by a new process in which nothing raises.
\<close>

definition first_run :: "connection \<times> scan_result" where
  "first_run = scan_workspace_sync no_match example_digest never_matches insert_fails
                 empty_connection two_file_workspace 10000 1048576 80 None"

definition second_run :: "connection \<times> scan_result" where
  "second_run = scan_workspace_sync no_match example_digest never_matches no_faults
                  (close_and_reopen (fst first_run)) two_file_workspace 10000 1048576 80 None"

text \<open>
  The \<open>try\<close> block indexing \<open>a.py\<close> on an empty index, and the connection of a new
  process after \<open>b.py\<close> has been processed as well.
\<close>

definition indexed_once :: "py_exception option \<times> connection \<times> scan_result" where
  "indexed_once = try_block no_match example_digest no_faults 1048576 80 None a_py
                    empty_connection initial_result"

definition later_example :: connection where
  "later_example =
     close_and_reopen
       (fst (process_file no_match example_digest no_faults 1048576 80 None b_py
               (fst (snd indexed_once)) (snd (snd indexed_once))))"

section \<open>Properties of the chunker\<close>

lemma str_split_newline_not_Nil: "str_split_newline s \<noteq> []"
  by (induction s) (auto split: list.splits)

lemma py_slice_length:
  "0 \<le> i \<Longrightarrow> i \<le> j \<Longrightarrow> j \<le> int (length xs) \<Longrightarrow> int (length (py_slice xs i j)) = j - i"
  by (simp add: py_slice_def Let_def)



lemma chunk_loop_stop:
  "\<not> start < int (length lines) \<Longrightarrow>
   chunk_loop re lines max_lines overlap min_lines language start prev_start = []"
  by (subst chunk_loop.simps) simp

lemma chunk_loop_guard:
  "start < int (length lines) \<Longrightarrow>
   chunk_loop re lines max_lines overlap min_lines language start start = [None]"
  by (subst chunk_loop.simps) simp

lemma chunk_loop_step:
  assumes "start < int (length lines)" and "start \<noteq> prev_start"
  shows "chunk_loop re lines max_lines overlap min_lines language start prev_start =
     (let end = min (start + max_lines) (int (length lines));
          chunk_lines = py_slice lines start end;
          out = (if min_lines \<le> int (length chunk_lines) \<or> start = 0
                 then Some (make_chunk re language start end chunk_lines)
                 else None)
      in if int (length lines) \<le> end then [out]
         else out # chunk_loop re lines max_lines overlap min_lines language
                      (if end - overlap \<le> start then start + 1 else end - overlap)
                      start)"
  using assms by (subst chunk_loop.simps) simp

lemma start_line_make_chunk [simp]:
  "start_line (make_chunk re language start e ls) = start + 1"
  by (simp add: make_chunk_def Let_def)

lemma end_line_make_chunk [simp]:
  "end_line (make_chunk re language start e ls) = e"
  by (simp add: make_chunk_def Let_def)

lemma chunk_loop_start_lines:
  "c \<in> set (List.map_filter (\<lambda>out. out)
              (chunk_loop re lines max_lines overlap min_lines language start prev_start))
   \<Longrightarrow> start < start_line c"
proof (induction re lines max_lines overlap min_lines language start prev_start
       rule: chunk_loop.induct)
  case (1 re lines max_lines overlap min_lines language start prev_start)
  define e where "e = min (start + max_lines) (int (length lines))"
  define nxt where "nxt = (if e - overlap \<le> start then start + 1 else e - overlap)"
  have nxt: "start < nxt" by (simp add: nxt_def)
  show ?case
  proof (cases "start < int (length lines) \<and> start \<noteq> prev_start")
    case False
    with "1.prems" show ?thesis
      by (cases "start < int (length lines)")
         (auto simp: chunk_loop_stop chunk_loop_guard)
  next
    case True
    note step = chunk_loop_step [of start lines prev_start re max_lines overlap min_lines language]
    show ?thesis
    proof (cases "int (length lines) \<le> e")
      case True
      with \<open>start < int (length lines) \<and> start \<noteq> prev_start\<close> "1.prems" show ?thesis
        by (auto simp: step Let_def e_def[symmetric] split: if_splits)
    next
      case False
      have ih: "c \<in> set (List.map_filter (\<lambda>out. out)
                  (chunk_loop re lines max_lines overlap min_lines language nxt start))
                \<Longrightarrow> nxt < start_line c"
        unfolding nxt_def e_def
        using True False by (intro "1.IH"[OF _ _ refl refl refl]) (simp_all add: e_def)
      from True False "1.prems" ih nxt show ?thesis
        by (auto simp: step Let_def e_def[symmetric] nxt_def[symmetric]
                 split: if_splits)
    qed
  qed
qed

lemma chunk_loop_sorted:
  "sorted_wrt (<) (map start_line (List.map_filter (\<lambda>out. out)
      (chunk_loop re lines max_lines overlap min_lines language start prev_start)))"
proof (induction re lines max_lines overlap min_lines language start prev_start
       rule: chunk_loop.induct)
  case (1 re lines max_lines overlap min_lines language start prev_start)
  define e where "e = min (start + max_lines) (int (length lines))"
  define nxt where "nxt = (if e - overlap \<le> start then start + 1 else e - overlap)"
  have nxt: "start < nxt" by (simp add: nxt_def)
  show ?case
  proof (cases "start < int (length lines) \<and> start \<noteq> prev_start")
    case False
    then show ?thesis
      by (cases "start < int (length lines)")
         (auto simp: chunk_loop_stop chunk_loop_guard)
  next
    case True
    note step = chunk_loop_step [of start lines prev_start re max_lines overlap min_lines language]
    show ?thesis
    proof (cases "int (length lines) \<le> e")
      case True
      with \<open>start < int (length lines) \<and> start \<noteq> prev_start\<close> show ?thesis
        by (auto simp: step Let_def e_def[symmetric])
    next
      case False
      have ih: "sorted_wrt (<) (map start_line (List.map_filter (\<lambda>out. out)
                  (chunk_loop re lines max_lines overlap min_lines language nxt start)))"
        unfolding nxt_def e_def
        using True False by (intro "1.IH"[OF _ _ refl refl refl]) (simp_all add: e_def)
      have later: "\<And>c. c \<in> set (List.map_filter (\<lambda>out. out)
                  (chunk_loop re lines max_lines overlap min_lines language nxt start))
                \<Longrightarrow> start + 1 < start_line c"
        using chunk_loop_start_lines [of _ re lines max_lines overlap min_lines language nxt start]
              nxt by force
      from True False ih later show ?thesis
        by (auto simp: step Let_def e_def[symmetric] nxt_def[symmetric])
    qed
  qed
qed

text \<open>
  C5. For every text and every configuration, the start lines of the chunks the chunker
  yields, in the order it yields them, are strictly increasing.
\<close>

theorem chunk_content_start_lines_increasing:
  "sorted_wrt (<) (map start_line (chunk_content re text max_lines overlap min_lines language))"
  by (simp add: chunk_content_def chunk_content_iterations_def Let_def chunk_loop_sorted)

subsection \<open>Coverage\<close>

text \<open>
  With at least one line per window, a non-negative overlap and a \<open>min_lines\<close> that
  neither a full window nor the last window can fall below, no window is discarded and
  each window starts no later than the line after the previous window's end: every line
  after \<open>start\<close> lies in a yielded chunk.
\<close>

lemma chunk_loop_covers:
  "1 \<le> max_lines \<Longrightarrow> 0 \<le> overlap \<Longrightarrow> min_lines \<le> max_lines \<Longrightarrow> min_lines \<le> overlap + 1 \<Longrightarrow>
   0 \<le> start \<Longrightarrow> start \<noteq> prev_start \<Longrightarrow>
   start = 0 \<or> min_lines \<le> int (length lines) - start \<Longrightarrow>
   start < l \<Longrightarrow> l \<le> int (length lines) \<Longrightarrow>
   \<exists>c\<in>set (List.map_filter (\<lambda>out. out)
              (chunk_loop re lines max_lines overlap min_lines language start prev_start)).
      start_line c \<le> l \<and> l \<le> end_line c"
proof (induction re lines max_lines overlap min_lines language start prev_start
       rule: chunk_loop.induct)
  case (1 re lines max_lines overlap min_lines language start prev_start)
  define e where "e = min (start + max_lines) (int (length lines))"
  define nxt where "nxt = (if e - overlap \<le> start then start + 1 else e - overlap)"
  define ck where "ck = make_chunk re language start e (py_slice lines start e)"
  note step = chunk_loop_step [of start lines prev_start re max_lines overlap min_lines language]
  have lt: "start < int (length lines)" using "1.prems" by linarith
  have e: "start < e" "e \<le> int (length lines)" using "1.prems" lt by (auto simp: e_def)
  have len: "int (length (py_slice lines start e)) = e - start"
    using "1.prems" e by (intro py_slice_length) auto
  have yield: "min_lines \<le> int (length (py_slice lines start e)) \<or> start = 0"
    using "1.prems" len by (auto simp: e_def)
  show ?case
  proof (cases "l \<le> e")
    case True
    have "ck \<in> set (List.map_filter (\<lambda>out. out)
              (chunk_loop re lines max_lines overlap min_lines language start prev_start))"
      using lt "1.prems"(6) yield
      by (auto simp: step Let_def e_def[symmetric] ck_def)
    moreover have "start_line ck \<le> l \<and> l \<le> end_line ck"
      using True "1.prems" by (simp add: ck_def)
    ultimately show ?thesis by blast
  next
    case False
    then have more: "\<not> int (length lines) \<le> e" using "1.prems" by linarith
    have nxt: "start < nxt" "nxt \<le> e" using "1.prems" e by (auto simp: nxt_def)
    have room: "nxt = 0 \<or> min_lines \<le> int (length lines) - nxt"
      using "1.prems" more e by (auto simp: nxt_def e_def min_def split: if_splits)
    have "\<exists>c\<in>set (List.map_filter (\<lambda>out. out)
              (chunk_loop re lines max_lines overlap min_lines language nxt start)).
            start_line c \<le> l \<and> l \<le> end_line c"
      unfolding nxt_def e_def
      using lt "1.prems" more nxt room False
      by (intro "1.IH"[OF _ _ refl refl refl]) (simp_all add: e_def nxt_def)
    then show ?thesis
      using lt "1.prems"(6) more
      by (auto simp: step Let_def e_def[symmetric] nxt_def[symmetric])
  qed
qed

lemma three_lines_split: "str_split_newline three_lines = [''a'', ''b'', ''c'']"
  by (simp add: three_lines_def)

lemma three_lines_chunks:
  "chunk_content no_match three_lines 2 0 2 None =
     [\<lparr> start_line = 1, end_line = 2, content = [CHR ''a'', CHR 0x0A, CHR ''b''],
        symbol = None, kind = ''block'', token_count = 0 \<rparr>]"
  by (simp add: chunk_content_def chunk_content_iterations_def three_lines_split
        chunk_loop_step chunk_loop_stop py_slice_def make_chunk_def extract_symbol_def Let_def)

text \<open>
  C2, as stated, fails. The text \<open>a\nb\nc\<close> has three lines; with \<open>max_lines = 2\<close>,
  \<open>overlap = 0\<close> and \<open>min_lines = 2\<close> the second window holds line 3 alone, is shorter
  than \<open>min_lines\<close> and is discarded: the only chunk covers lines 1 to 2, and line 3 is
  in no chunk.
\<close>

theorem chunk_content_coverage_counterexample:
  "length (str_split_newline three_lines) = 3
   \<and> \<not> (\<forall>l. 1 \<le> l \<and> l \<le> int (length (str_split_newline three_lines)) \<longrightarrow>
          (\<exists>c\<in>set (chunk_content no_match three_lines 2 0 2 None).
              start_line c \<le> l \<and> l \<le> end_line c))"
proof -
  have "\<not> (\<exists>c\<in>set (chunk_content no_match three_lines 2 0 2 None).
              start_line c \<le> 3 \<and> 3 \<le> end_line c)"
    by (simp add: three_lines_chunks)
  moreover have "length (str_split_newline three_lines) = 3"
    by (simp add: three_lines_split)
  ultimately show ?thesis by force
qed

text \<open>
  The other three conditions of the amended claim are needed as well: a negative overlap
  leaves a gap between two windows, a \<open>max_lines\<close> below \<open>min_lines\<close> discards every
  window but the first, and \<open>max_lines = 0\<close> yields empty windows.
\<close>

lemma three_lines_negative_overlap:
  "map start_line (chunk_content no_match three_lines 2 (- 1) 1 None) = [1]
   \<and> map end_line (chunk_content no_match three_lines 2 (- 1) 1 None) = [2]"
  by (simp add: chunk_content_def chunk_content_iterations_def three_lines_split
        chunk_loop_step chunk_loop_stop py_slice_def Let_def)

lemma three_lines_max_below_min:
  "map start_line (chunk_content no_match three_lines 1 1 2 None) = [1]
   \<and> map end_line (chunk_content no_match three_lines 1 1 2 None) = [1]"
  by (simp add: chunk_content_def chunk_content_iterations_def three_lines_split
        chunk_loop_step chunk_loop_stop py_slice_def Let_def)

lemma three_lines_max_zero:
  "map start_line (chunk_content no_match three_lines 0 0 0 None) = [1, 2, 3]
   \<and> map end_line (chunk_content no_match three_lines 0 0 0 None) = [0, 1, 2]"
  by (simp add: chunk_content_def chunk_content_iterations_def three_lines_split
        chunk_loop_step chunk_loop_stop py_slice_def Let_def)

text \<open>
  C2, amended. For every text and every configuration with \<open>max_lines \<ge> 1\<close>,
  \<open>overlap \<ge> 0\<close>, \<open>min_lines \<le> max_lines\<close> and \<open>min_lines \<le> overlap + 1\<close> (the
  defaults 80, 5, 3 are one), every line number from 1 to the number of lines of the text
  lies in the range of a yielded chunk.
\<close>

theorem chunk_content_covers:
  assumes "1 \<le> max_lines" and "0 \<le> overlap"
    and "min_lines \<le> max_lines" and "min_lines \<le> overlap + 1"
    and "1 \<le> l" and "l \<le> int (length (str_split_newline text))"
  shows "\<exists>c\<in>set (chunk_content re text max_lines overlap min_lines language).
           start_line c \<le> l \<and> l \<le> end_line c"
  using chunk_loop_covers [of max_lines overlap min_lines 0 "- 1" "str_split_newline text" l
                              re language] assms
  by (simp add: chunk_content_def chunk_content_iterations_def Let_def
                str_split_newline_not_Nil)

theorem chunk_content_covers_witness:
  "(1::int) \<le> 2 \<and> (0::int) \<le> 1 \<and> (2::int) \<le> 2 \<and> (2::int) \<le> 1 + 1
   \<and> (1::int) \<le> 3 \<and> 3 \<le> int (length (str_split_newline three_lines))
   \<and> (\<exists>c\<in>set (chunk_content no_match three_lines 2 1 2 None).
          start_line c \<le> 3 \<and> 3 \<le> end_line c)"
  using chunk_content_covers [of 2 1 2 3 three_lines no_match None]
  by (simp add: three_lines_split)

subsection \<open>The 200-line scenario\<close>

text \<open>
  The chunker numbers the pieces of \<open>content.split("\n")\<close>: one more than the text has
  newline characters. That is the number of lines of a text whose last line is not
  followed by a newline, and one more than the number of lines of a text that ends with a
  newline.
\<close>

lemma str_split_newline_length:
  "length (str_split_newline s) = Suc (length (filter (\<lambda>c. c = CHR 0x0A) s))"
  by (induction s) (auto split: list.splits)

lemma line_count_unterminated:
  "last text \<noteq> CHR 0x0A \<Longrightarrow> line_count text = n \<Longrightarrow> 0 < n \<Longrightarrow>
   length (str_split_newline text) = n"
  by (auto simp: line_count_def str_split_newline_length split: if_splits)

lemma line_count_terminated:
  "text \<noteq> [] \<Longrightarrow> last text = CHR 0x0A \<Longrightarrow>
   length (str_split_newline text) = Suc (line_count text)"
  by (simp add: line_count_def str_split_newline_length)

lemma newlines_of_x_lines:
  "length (filter (\<lambda>c. c = CHR 0x0A) (concat (replicate n [CHR ''x'', CHR 0x0A]))) = n"
  by (induction n) simp_all

lemma two_hundred_lines_count:
  "line_count two_hundred_lines = 200" "last two_hundred_lines \<noteq> CHR 0x0A"
  by (simp_all add: line_count_def two_hundred_lines_def newlines_of_x_lines)

lemma two_hundred_terminated_lines_count:
  "line_count two_hundred_terminated_lines = 200"
  "last two_hundred_terminated_lines = CHR 0x0A"
  by (simp_all add: line_count_def two_hundred_terminated_lines_def two_hundred_lines_def
        newlines_of_x_lines)

text \<open>The chunks of a text that splits into 200 pieces, and of one that splits into 201.\<close>

lemma chunk_content_200_pieces:
  assumes "length (str_split_newline text) = 200"
  shows "map start_line (chunk_content re text 80 5 3 language) = [1, 76, 151]
       \<and> map end_line (chunk_content re text 80 5 3 language) = [80, 155, 200]
       \<and> length (chunk_content_iterations re text 80 5 3 language) = 3"
proof -
  define lines where "lines = str_split_newline text"
  have n: "int (length lines) = 200" "lines \<noteq> []" "length lines = 200"
    using assms by (auto simp: lines_def)
  have l1: "int (length (py_slice lines 0 80)) = 80"
    using n by (subst py_slice_length) simp_all
  have l2: "int (length (py_slice lines 75 155)) = 80"
    using n by (subst py_slice_length) simp_all
  have l3: "int (length (py_slice lines 150 200)) = 50"
    using n by (subst py_slice_length) simp_all
  have loop: "chunk_loop re lines 80 5 3 language 0 (- 1) =
      [Some (make_chunk re language 0 80 (py_slice lines 0 80)),
       Some (make_chunk re language 75 155 (py_slice lines 75 155)),
       Some (make_chunk re language 150 200 (py_slice lines 150 200))]"
    using n l1 l2 l3 by (simp add: chunk_loop_step Let_def)
  show ?thesis
    using n
    by (simp add: chunk_content_def chunk_content_iterations_def lines_def[symmetric] loop
          Let_def)
qed

lemma chunk_content_201_pieces:
  assumes "length (str_split_newline text) = 201"
  shows "map start_line (chunk_content re text 80 5 3 language) = [1, 76, 151]
       \<and> map end_line (chunk_content re text 80 5 3 language) = [80, 155, 201]
       \<and> length (chunk_content_iterations re text 80 5 3 language) = 3"
proof -
  define lines where "lines = str_split_newline text"
  have n: "int (length lines) = 201" "lines \<noteq> []" "length lines = 201"
    using assms by (auto simp: lines_def)
  have l1: "int (length (py_slice lines 0 80)) = 80"
    using n by (subst py_slice_length) simp_all
  have l2: "int (length (py_slice lines 75 155)) = 80"
    using n by (subst py_slice_length) simp_all
  have l3: "int (length (py_slice lines 150 201)) = 51"
    using n by (subst py_slice_length) simp_all
  have loop: "chunk_loop re lines 80 5 3 language 0 (- 1) =
      [Some (make_chunk re language 0 80 (py_slice lines 0 80)),
       Some (make_chunk re language 75 155 (py_slice lines 75 155)),
       Some (make_chunk re language 150 201 (py_slice lines 150 201))]"
    using n l1 l2 l3 by (simp add: chunk_loop_step Let_def)
  show ?thesis
    using n
    by (simp add: chunk_content_def chunk_content_iterations_def lines_def[symmetric] loop
          Let_def)
qed

text \<open>
  C8, as stated, fails. The text of 200 lines \<open>x\<close>, each followed by a newline, splits
  into 201 pieces, the last one empty: with \<open>max_lines = 80\<close>, \<open>overlap = 5\<close> and
  \<open>min_lines = 3\<close> the third chunk ends at line 201, not at line 200.
\<close>

theorem chunk_content_200_terminated_lines_counterexample:
  "line_count two_hundred_terminated_lines = 200
   \<and> map start_line (chunk_content no_match two_hundred_terminated_lines 80 5 3 None)
       = [1, 76, 151]
   \<and> map end_line (chunk_content no_match two_hundred_terminated_lines 80 5 3 None)
       = [80, 155, 201]"
proof -
  have "length (str_split_newline two_hundred_terminated_lines) = 201"
    using line_count_terminated [of two_hundred_terminated_lines]
          two_hundred_terminated_lines_count
    by (simp add: two_hundred_terminated_lines_def)
  from chunk_content_201_pieces [OF this, of no_match None]
       two_hundred_terminated_lines_count(1)
  show ?thesis by simp
qed

text \<open>
  C8, amended. For a text of exactly 200 lines whose last line is not followed by a
  newline, and \<open>max_lines = 80\<close>, \<open>overlap = 5\<close>, \<open>min_lines = 3\<close>, the chunker yields
  exactly three chunks, covering lines 1 to 80, 76 to 155 and 151 to 200, and its loop
  body is entered exactly three times: the loop ends with the chunk that reaches line 200.
\<close>

theorem chunk_content_200_unterminated_lines:
  assumes "line_count text = 200" and "last text \<noteq> CHR 0x0A"
  shows "map start_line (chunk_content re text 80 5 3 language) = [1, 76, 151]
       \<and> map end_line (chunk_content re text 80 5 3 language) = [80, 155, 200]
       \<and> length (chunk_content_iterations re text 80 5 3 language) = 3"
proof -
  have "length (str_split_newline text) = 200"
    using assms by (intro line_count_unterminated) simp_all
  then show ?thesis by (rule chunk_content_200_pieces)
qed

theorem chunk_content_200_unterminated_lines_witness:
  "line_count two_hundred_lines = 200 \<and> last two_hundred_lines \<noteq> CHR 0x0A
   \<and> map start_line (chunk_content no_match two_hundred_lines 80 5 3 None) = [1, 76, 151]
   \<and> map end_line (chunk_content no_match two_hundred_lines 80 5 3 None) = [80, 155, 200]
   \<and> length (chunk_content_iterations no_match two_hundred_lines 80 5 3 None) = 3"
  using chunk_content_200_unterminated_lines [OF two_hundred_lines_count, of no_match None]
        two_hundred_lines_count
  by simp

subsection \<open>The empty text\<close>

text \<open>
  \<open>str.split\<close> never returns an empty list, so the test \<open>total_lines == 0\<close> never holds:
  the empty text is one empty line, and the first window is yielded whatever its size.
\<close>

lemma chunk_content_empty_any:
  "length (chunk_content re [] max_lines overlap min_lines language) = 1"
  by (simp add: chunk_content_def chunk_content_iterations_def chunk_loop_step chunk_loop_stop
        Let_def)

text \<open>
  C9 fails on the code. For the empty text \<open>content.split("\n")\<close> is the one-element list
  of the empty line, and the chunker, with its default parameters, yields one chunk for
  lines 1 to 1 with empty content.
\<close>

theorem chunk_content_empty_text:
  "str_split_newline [] = [[]]
   \<and> chunk_content re [] 80 5 3 None =
       [\<lparr> start_line = 1, end_line = 1, content = [], symbol = None, kind = ''block'',
          token_count = 0 \<rparr>]"
  by (simp add: chunk_content_def chunk_content_iterations_def chunk_loop_step chunk_loop_stop
        py_slice_def make_chunk_def extract_symbol_def Let_def)

section \<open>Properties of the search\<close>

lemma escaped_query_without_space:
  "CHR '' '' \<notin> set query \<Longrightarrow> escaped_query query = query"
  by (simp add: escaped_query_def)

text \<open>
  C6, as stated, fails. The query \<open>foo<TAB>bar\<close> contains whitespace, but no space
  character: \<open>search_fts\<close> passes it on as it is, and the operand is not a quoted string.
\<close>

theorem escaped_query_tab_counterexample:
  "list_ex is_whitespace tab_query
   \<and> escaped_query tab_query = tab_query
   \<and> fts5_single_phrase (escaped_query tab_query) = None"
  by (simp add: is_whitespace_def tab_query_def escaped_query_def fts5_single_phrase_def)

text \<open>
  A query without a double quote, wrapped in double quotes, is one quoted string whose
  text is the query. A double quote inside the query is not written twice by
  \<open>search_fts\<close>, and the wrapped query is then not one quoted string.
\<close>

lemma fts5_string_body_plain:
  "CHR 0x22 \<notin> set q \<Longrightarrow> fts5_string_body (q @ [CHR 0x22]) = Some q"
  by (induction q) auto

lemma escaped_query_is_phrase:
  "CHR '' '' \<in> set query \<Longrightarrow> CHR 0x22 \<notin> set query \<Longrightarrow>
   fts5_single_phrase (escaped_query query) = Some query"
  by (simp add: escaped_query_def fts5_single_phrase_def fts5_string_body_plain)

lemma quote_query_not_phrase:
  "CHR '' '' \<in> set quote_query
   \<and> escaped_query quote_query = [CHR 0x22, CHR ''a'', CHR '' '', CHR 0x22, CHR ''b'', CHR 0x22]
   \<and> fts5_single_phrase (escaped_query quote_query) = None"
  by (simp add: quote_query_def escaped_query_def fts5_single_phrase_def)

lemma substring_select_phrase_engine: "phrase_engine substring_select c_content str_contains"
  by (simp add: phrase_engine_def substring_select_def list_all_iff)

text \<open>
  C6, amended. For every query string that contains a space character and no double
  quote, the search operation treats the whole query as a single literal quoted phrase:
  the operand it gives the full-text engine is one quoted string whose text is the whole
  query, so every row the engine returns contains the query as a phrase.
\<close>

theorem search_fts_space_query_is_one_phrase:
  assumes "CHR '' '' \<in> set query" and "CHR 0x22 \<notin> set query"
    and "phrase_engine fts5_select content_of contains_phrase"
  shows "fts5_single_phrase (escaped_query query) = Some query
       \<and> list_all (\<lambda>row. contains_phrase (content_of row) query)
           (search_fts fts5_select conn query limit offset)"
  using assms escaped_query_is_phrase [of query]
  by (simp add: search_fts_def phrase_engine_def)

theorem search_fts_space_query_is_one_phrase_witness:
  "CHR '' '' \<in> set ''foo bar'' \<and> CHR 0x22 \<notin> set ''foo bar''
   \<and> phrase_engine substring_select c_content str_contains
   \<and> fts5_single_phrase (escaped_query ''foo bar'') = Some ''foo bar''
   \<and> list_all (\<lambda>row. str_contains (c_content row) ''foo bar'')
        (search_fts substring_select two_chunk_connection ''foo bar'' 20 0)
   \<and> map c_id (search_fts substring_select two_chunk_connection ''foo bar'' 20 0) = [1]"
proof -
  have a: "CHR '' '' \<in> set ''foo bar''" and b: "CHR 0x22 \<notin> set ''foo bar''" by simp_all
  have r: "map c_id (search_fts substring_select two_chunk_connection ''foo bar'' 20 0) = [1]"
    by (simp add: search_fts_def substring_select_def escaped_query_def fts5_single_phrase_def
          two_chunk_connection_def two_chunk_database_def)
  from search_fts_space_query_is_one_phrase
         [OF a b substring_select_phrase_engine, of two_chunk_connection 20 0]
       a b substring_select_phrase_engine r
  show ?thesis by simp
qed

section \<open>Properties of the walker\<close>

text \<open>
  \<open>Path.suffix\<close> starts at the last dot of the name, so it holds one dot only: the
  entries \<open>.min.js\<close>, \<open>.min.css\<close> and \<open>.bundle.js\<close> of \<open>IGNORE_EXTENSIONS\<close> are equal
  to the suffix of no name.
\<close>

lemma rfind_char_None: "rfind_char c xs = None \<Longrightarrow> c \<notin> set xs"
  by (induction xs) (auto split: option.splits if_splits)

lemma rfind_char_last:
  "rfind_char c xs = Some i \<Longrightarrow> c \<notin> set (drop (Suc i) xs) \<and> i < length xs"
  by (induction xs arbitrary: i) (auto split: option.splits if_splits dest: rfind_char_None)

lemma char_lower_dot: "char_lower c = CHR ''.'' \<Longrightarrow> c = CHR ''.''"
proof -
  assume a: "char_lower c = CHR ''.''"
  show ?thesis
  proof (cases "(65 \<le> (of_char c :: nat) \<and> (of_char c :: nat) \<le> 90)
                \<or> (192 \<le> (of_char c :: nat) \<and> (of_char c :: nat) \<le> 222 \<and> (of_char c :: nat) \<noteq> 215)")
    case False
    with a show ?thesis by (simp add: char_lower_def Let_def)
  next
    case True
    with a have "char_of ((of_char c :: nat) + 32) = CHR ''.''"
      by (simp add: char_lower_def Let_def)
    then have "of_char (char_of ((of_char c :: nat) + 32) :: char) = (46 :: nat)" by simp
    then have "((of_char c :: nat) + 32) mod 256 = 46" by (simp add: of_char_of)
    with True show ?thesis
      by (auto simp: mod_if split: if_splits)
  qed
qed

lemma path_suffix_single_dot:
  "CHR ''.'' \<notin> set (tl (str_lower (path_suffix nm)))"
proof (cases "rfind_char CHR ''.'' nm")
  case None
  then show ?thesis by (simp add: path_suffix_def str_lower_def)
next
  case (Some i)
  from rfind_char_last [OF Some]
  have "CHR ''.'' \<notin> set (drop (Suc i) nm)" by simp
  then have "CHR ''.'' \<notin> set (map char_lower (drop (Suc i) nm))"
    using char_lower_dot by (auto simp: image_iff) metis
  then show ?thesis
    using Some by (simp add: path_suffix_def str_lower_def map_tl [symmetric] drop_Suc tl_drop)
qed

lemma multi_dot_extensions_never_match:
  "str_lower (path_suffix nm) \<noteq> ''.min.js''
   \<and> str_lower (path_suffix nm) \<noteq> ''.min.css''
   \<and> str_lower (path_suffix nm) \<noteq> ''.bundle.js''"
  using path_suffix_single_dot [of nm] by auto

text \<open>
  C7 fails on the code. \<open>.min.js\<close> is in \<open>IGNORE_EXTENSIONS\<close> and the name
  \<open>app.min.js\<close> ends with it, but the walker compares \<open>Path.suffix\<close>, which is \<open>.js\<close>:
  in a workspace without \<open>.gitignore\<close> the walker yields the file.
\<close>

theorem walk_files_yields_min_js:
  "List.member IGNORE_EXTENSIONS ''.min.js''
   \<and> endswith ''app.min.js'' ''.min.js''
   \<and> path_suffix ''app.min.js'' = ''.js''
   \<and> walk_files fnmatch min_js_workspace 20 =
       [\<lparr> rel_path = ''app.min.js'', name = ''app.min.js'', info = example_info \<rparr>]"
  by (simp add: walk_files_def min_js_workspace_def IGNORE_EXTENSIONS_def endswith_def
        path_suffix_def str_lower_def char_lower_def should_ignore_def DEFAULT_IGNORE_def
        relative_to_root_def Let_def)

section \<open>Properties of the scan\<close>

subsection \<open>The counters\<close>

lemma chunk_content_x:
  "chunk_content re ''x'' 80 5 3 None =
     [\<lparr> start_line = 1, end_line = 1, content = ''x'', symbol = None, kind = ''block'',
        token_count = 0 \<rparr>]"
  by (simp add: chunk_content_def chunk_content_iterations_def chunk_loop_step chunk_loop_stop
        py_slice_def make_chunk_def extract_symbol_def Let_def)

lemma walk_one: "walk_files fnmatch one_file_workspace 20 =
   [\<lparr> rel_path = ''a.py'', name = ''a.py'', info = example_info \<rparr>]"
  by (simp add: walk_files_def one_file_workspace_def IGNORE_EXTENSIONS_def
        path_suffix_def str_lower_def char_lower_def should_ignore_def DEFAULT_IGNORE_def
        relative_to_root_def Let_def)

lemma walk_two: "walk_files fnmatch two_file_workspace 20 =
   [\<lparr> rel_path = ''a.py'', name = ''a.py'', info = example_info \<rparr>,
    \<lparr> rel_path = ''b.py'', name = ''b.py'', info = example_info \<rparr>]"
  by (simp add: walk_files_def two_file_workspace_def IGNORE_EXTENSIONS_def
        path_suffix_def str_lower_def char_lower_def should_ignore_def DEFAULT_IGNORE_def
        relative_to_root_def Let_def)

lemma lang_py: "detect_language ''a.py'' = Some ''python''" "detect_language ''b.py'' = Some ''python''"
  by (simp_all add: detect_language_def LANGUAGE_MAP_def endswith_def)

text \<open>
  C10 fails on the code. \<open>files_indexed\<close> is incremented before \<open>conn.commit()\<close>, inside
  the \<open>try\<close> block: when the commit raises, the handler also appends the file to
  \<open>errors\<close>. For one file whose commit raises, the run returns \<open>files_scanned = 1\<close>,
  \<open>files_indexed = 1\<close>, \<open>files_skipped = 0\<close> and one error.
\<close>

theorem scan_counts_commit_failure_twice:
  "snd (scan_workspace_sync no_match example_digest never_matches commit_fails empty_connection
          one_file_workspace 10000 1048576 80 None) =
     \<lparr> files_scanned = 1, files_indexed = 1, files_skipped = 0, chunks_created = 1,
       errors = [(''a.py'', ''database or disk is full'')], stopped_early = False,
       duration_ms = 0 \<rparr>"
  by (simp add: scan_workspace_sync_def walk_one initial_result_def process_file_def
        try_block_def example_info_def commit_fails_def hash_content_def example_digest_def
        get_file_by_path_def empty_connection_def empty_database_def lang_py upsert_file_def
        chunk_content_x insert_chunk_def Let_def)

text \<open>
  In a run in which no \<open>conn.commit()\<close> raises, every file is counted exactly once.
\<close>

lemma insert_chunks_counters:
  "insert_chunks raises file_id k cs conn result = (ex, conn', result') \<Longrightarrow>
   files_scanned result' = files_scanned result \<and> files_indexed result' = files_indexed result
   \<and> files_skipped result' = files_skipped result \<and> errors result' = errors result"
  by (induction cs arbitrary: k conn result) (auto split: option.splits)

lemma process_file_counts:
  assumes "db_raises env (rel_path file_path) Commit = None"
    and "process_file re sha env max_file_size max_chunk_lines project_id file_path conn result
           = (conn', result')"
  shows "files_indexed result' + files_skipped result' + int (length (errors result'))
           = files_indexed result + files_skipped result + int (length (errors result)) + 1
       \<and> files_scanned result' = files_scanned result"
  using assms
  by (auto simp: process_file_def try_block_def Let_def
           split: sum.splits option.splits prod.splits if_splits py_exception.splits
           dest!: insert_chunks_counters)

lemma scan_loop_counts:
  "\<forall>f\<in>set fs. db_raises env (rel_path f) Commit = None \<Longrightarrow>
   scan_loop re sha env max_files max_file_size max_chunk_lines project_id fs conn result
     = (conn', result') \<Longrightarrow>
   files_scanned result
     = files_indexed result + files_skipped result + int (length (errors result)) \<Longrightarrow>
   files_scanned result'
     = files_indexed result' + files_skipped result' + int (length (errors result'))"
proof (induction fs arbitrary: conn result)
  case Nil
  then show ?case by simp
next
  case (Cons f fs)
  show ?case
  proof (cases "files_scanned result \<ge> max_files")
    case True
    with Cons.prems show ?thesis by auto
  next
    case False
    obtain c1 r1 where p: "process_file re sha env max_file_size max_chunk_lines project_id f
        conn (result\<lparr>files_scanned := files_scanned result + 1\<rparr>) = (c1, r1)"
      by (cases "process_file re sha env max_file_size max_chunk_lines project_id f
        conn (result\<lparr>files_scanned := files_scanned result + 1\<rparr>)") auto
    from process_file_counts [OF _ p] Cons.prems(1,3)
    have inv: "files_scanned r1 = files_indexed r1 + files_skipped r1 + int (length (errors r1))"
      by simp
    from Cons.prems(2) False p
    have "scan_loop re sha env max_files max_file_size max_chunk_lines project_id fs c1 r1
            = (conn', result')" by simp
    with Cons.IH [OF _ this inv] Cons.prems(1) show ?thesis by simp
  qed
qed

lemma scan_counts_partition_without_commit_failure:
  assumes "\<forall>f\<in>set (walk_files fnmatch root_path 20). db_raises env (rel_path f) Commit = None"
    and "scan_workspace_sync re sha fnmatch env conn root_path max_files max_file_size
           max_chunk_lines project_id = (conn', result)"
  shows "files_scanned result
           = files_indexed result + files_skipped result + int (length (errors result))"
proof -
  obtain c r where l: "scan_loop re sha env max_files max_file_size max_chunk_lines
      project_id (walk_files fnmatch root_path 20) conn initial_result = (c, r)"
    by (cases "scan_loop re sha env max_files max_file_size max_chunk_lines
      project_id (walk_files fnmatch root_path 20) conn initial_result") auto
  have "files_scanned r = files_indexed r + files_skipped r + int (length (errors r))"
    by (rule scan_loop_counts [OF assms(1) l]) (simp add: initial_result_def)
  with assms(2) l show ?thesis by (auto simp: scan_workspace_sync_def)
qed

subsection \<open>A failure after the file record is written\<close>

lemma first_run_eq:
  "first_run =
     (\<lparr> working =
          \<lparr> files = [\<lparr> f_id = 1, f_path = ''a.py'', f_hash = ''x'', f_mtime = Some 0,
                       f_size = Some 1, f_lang = Some ''python'', f_indexed_at = 0,
                       f_project_id = None, f_ignored = False \<rparr>,
                     \<lparr> f_id = 2, f_path = ''b.py'', f_hash = ''x'', f_mtime = Some 0,
                       f_size = Some 1, f_lang = Some ''python'', f_indexed_at = 0,
                       f_project_id = None, f_ignored = False \<rparr>],
            chunks = [\<lparr> c_id = 1, c_file_id = 2, c_start_line = 1, c_end_line = 1,
                        c_content = ''x'', c_symbol = None, c_kind = Some ''block'' \<rparr>],
            chunks_fts = [(1, ''x'')], files_seq = 2, chunks_seq = 1 \<rparr>,
        committed =
          \<lparr> files = [\<lparr> f_id = 1, f_path = ''a.py'', f_hash = ''x'', f_mtime = Some 0,
                       f_size = Some 1, f_lang = Some ''python'', f_indexed_at = 0,
                       f_project_id = None, f_ignored = False \<rparr>,
                     \<lparr> f_id = 2, f_path = ''b.py'', f_hash = ''x'', f_mtime = Some 0,
                       f_size = Some 1, f_lang = Some ''python'', f_indexed_at = 0,
                       f_project_id = None, f_ignored = False \<rparr>],
            chunks = [\<lparr> c_id = 1, c_file_id = 2, c_start_line = 1, c_end_line = 1,
                        c_content = ''x'', c_symbol = None, c_kind = Some ''block'' \<rparr>],
            chunks_fts = [(1, ''x'')], files_seq = 2, chunks_seq = 1 \<rparr> \<rparr>,
      \<lparr> files_scanned = 2, files_indexed = 1, files_skipped = 0, chunks_created = 1,
        errors = [(''a.py'', ''database or disk is full'')], stopped_early = False,
        duration_ms = 0 \<rparr>)"
  by (simp add: first_run_def scan_workspace_sync_def walk_two initial_result_def
        process_file_def try_block_def example_info_def insert_fails_def hash_content_def
        example_digest_def get_file_by_path_def empty_connection_def empty_database_def
        lang_py upsert_file_def chunk_content_x insert_chunk_def commit_def Let_def)

text \<open>
  C1 fails on the code. In the first run \<open>insert_chunk\<close> raises for \<open>a.py\<close> after
  \<open>upsert_file\<close> has written its row; the handler records the error and does not roll
  back, and the commit that ends the processing of \<open>b.py\<close> makes the row of \<open>a.py\<close>
  durable, with its new fingerprint and without any chunk. The second run, by a new
  process, finds the fingerprint unchanged and skips \<open>a.py\<close>, which stays without chunks.
\<close>

theorem failed_file_row_is_committed_without_chunks:
  "errors (snd first_run) = [(''a.py'', ''database or disk is full'')]
   \<and> map f_path (files (committed (fst first_run))) = [''a.py'', ''b.py'']
   \<and> map f_id (files (committed (fst first_run))) = [1, 2]
   \<and> map f_hash (files (committed (fst first_run)))
       = [hash_content example_digest ''x'', hash_content example_digest ''x'']
   \<and> map c_file_id (chunks (committed (fst first_run))) = [2]
   \<and> files_skipped (snd second_run) = 2
   \<and> files_indexed (snd second_run) = 0
   \<and> errors (snd second_run) = []
   \<and> map c_file_id (chunks (committed (fst second_run))) = [2]"
  by (simp add: second_run_def first_run_eq scan_workspace_sync_def walk_two initial_result_def
        process_file_def try_block_def example_info_def no_faults_def hash_content_def
        example_digest_def get_file_by_path_def close_and_reopen_def Let_def)

subsection \<open>Unchanged files\<close>

lemma find_map_update:
  "(\<And>r. f_path (upd r) = f_path r) \<Longrightarrow>
   find (\<lambda>r. f_path r = p) (map (\<lambda>r. if f_path r = q then upd r else r) xs)
     = map_option (\<lambda>r. if f_path r = q then upd r else r) (find (\<lambda>r. f_path r = p) xs)"
  by (induction xs) auto

lemma find_append_other:
  "\<not> P y \<Longrightarrow> find P (xs @ [y]) = find P xs"
  by (induction xs) auto

lemma filter_empty_find: "(length (filter P xs) > 0) = (find P xs \<noteq> None)"
  by (induction xs) auto

lemma find_path_SomeD:
  "find (\<lambda>r. f_path r = p) xs = Some z \<Longrightarrow> f_path z = p"
  by (induction xs) (auto split: if_splits)

lemma upsert_file_other:
  "q \<noteq> p \<Longrightarrow>
   stored_hash (fst (upsert_file conn now q h sz lang mt pid)) p = stored_hash conn p
   \<and> committed (fst (upsert_file conn now q h sz lang mt pid)) = committed conn"
  by (auto simp: upsert_file_def stored_hash_def get_file_by_path_def Let_def find_map_update
        find_append_other option.map_comp comp_def
        dest: find_path_SomeD intro!: option.map_cong)

lemma upsert_file_same:
  "stored_hash (fst (upsert_file conn now p h sz lang mt pid)) p = Some h
   \<and> committed (fst (upsert_file conn now p h sz lang mt pid)) = committed conn"
proof (cases "find (\<lambda>r. f_path r = p) (files (working conn))")
  case None
  then have "filter (\<lambda>row. f_path row = p) (files (working conn)) = []"
    using filter_empty_find [of "\<lambda>r. f_path r = p" "files (working conn)"] by simp
  moreover have "find (\<lambda>r. f_path r = p) (xs @ [y]) = Some y"
    if "find (\<lambda>r. f_path r = p) xs = None" "f_path y = p" for xs and y :: files_row
    using that by (induction xs) (auto split: if_splits)
  ultimately show ?thesis
    using None
    by (simp add: upsert_file_def stored_hash_def get_file_by_path_def Let_def)
next
  case (Some row)
  then have "length (filter (\<lambda>row. f_path row = p) (files (working conn))) > 0"
    using filter_empty_find [of "\<lambda>r. f_path r = p" "files (working conn)"] by simp
  moreover have "f_path row = p" using Some by (rule find_path_SomeD)
  ultimately show ?thesis
    using Some
    by (simp add: upsert_file_def stored_hash_def get_file_by_path_def Let_def find_map_update)
qed

lemma delete_chunks_for_file_files:
  "stored_hash (delete_chunks_for_file conn file_id) p = stored_hash conn p
   \<and> committed (delete_chunks_for_file conn file_id) = committed conn"
  by (simp add: delete_chunks_for_file_def stored_hash_def get_file_by_path_def Let_def)

lemma insert_chunks_files:
  "insert_chunks raises file_id k cs conn result = (ex, conn', result') \<Longrightarrow>
   stored_hash conn' p = stored_hash conn p \<and> committed conn' = committed conn"
proof (induction cs arbitrary: k conn result)
  case Nil
  then show ?case by simp
next
  case (Cons c cs)
  show ?case
  proof (cases "raises (InsertChunk k)")
    case (Some msg)
    with Cons.prems show ?thesis by simp
  next
    case None
    with Cons.prems Cons.IH show ?thesis
      by (fastforce simp: insert_chunk_def stored_hash_def get_file_by_path_def Let_def)
  qed
qed

lemma upsert_file_other_eq:
  "upsert_file conn now q h sz lang mt pid = (conn1, file_id) \<Longrightarrow> q \<noteq> p \<Longrightarrow>
   stored_hash conn1 p = stored_hash conn p \<and> committed conn1 = committed conn"
  using upsert_file_other [of q p conn now h sz lang mt pid] by simp

lemma upsert_file_same_eq:
  "upsert_file conn now p h sz lang mt pid = (conn1, file_id) \<Longrightarrow>
   stored_hash conn1 p = Some h \<and> committed conn1 = committed conn"
  using upsert_file_same [of conn now p h sz lang mt pid] by simp

lemma stored_hash_commit [simp]:
  "stored_hash (commit conn) p = stored_hash conn p"
  "stored_hash (close_and_reopen (commit conn)) p = stored_hash conn p"
  by (simp_all add: stored_hash_def get_file_by_path_def commit_def close_and_reopen_def)

lemma stored_hash_reopen_committed:
  "committed conn' = committed conn \<Longrightarrow>
   stored_hash (close_and_reopen conn') p = stored_hash (close_and_reopen conn) p"
  by (simp add: stored_hash_def get_file_by_path_def close_and_reopen_def)

lemma try_block_other:
  assumes "rel_path file_path \<noteq> p"
    and "try_block re sha env max_file_size max_chunk_lines project_id file_path conn result
           = (ex, conn', result')"
  shows "stored_hash conn' p = stored_hash conn p
       \<and> (stored_hash (close_and_reopen conn') p = stored_hash (close_and_reopen conn) p
          \<or> stored_hash (close_and_reopen conn') p = stored_hash conn' p)"
  using assms
  by (auto simp: try_block_def Let_def delete_chunks_for_file_files
           split: sum.splits option.splits prod.splits if_splits
           dest!: insert_chunks_files [where p = p] upsert_file_other_eq [where p = p]
           intro: stored_hash_reopen_committed)

lemma process_file_other:
  assumes "rel_path file_path \<noteq> p"
    and "process_file re sha env max_file_size max_chunk_lines project_id file_path conn result
           = (conn', result')"
    and "stored_hash conn p = Some h" and "stored_hash (close_and_reopen conn) p = Some h"
  shows "stored_hash conn' p = Some h \<and> stored_hash (close_and_reopen conn') p = Some h"
proof -
  obtain ex c1 r1 where t: "try_block re sha env max_file_size max_chunk_lines project_id
      file_path conn result = (ex, c1, r1)"
    by (cases "try_block re sha env max_file_size max_chunk_lines project_id
      file_path conn result") auto
  from assms(2) t have "conn' = c1"
    by (auto simp: process_file_def split: option.splits py_exception.splits)
  with try_block_other [OF assms(1) t] assms(3,4) show ?thesis by auto
qed

lemma later_connection_keeps_hash:
  "later_connection p conn conn' \<Longrightarrow>
   stored_hash conn p = Some h \<Longrightarrow> stored_hash (close_and_reopen conn) p = Some h \<Longrightarrow>
   stored_hash conn' p = Some h \<and> stored_hash (close_and_reopen conn') p = Some h"
proof (induction rule: later_connection.induct)
  case (same conn)
  then show ?case by simp
next
  case (other_file conn conn' file_path re_search sha256_hexdigest env max_file_size
        max_chunk_lines project_id result conn'' result')
  then show ?case using process_file_other by blast
next
  case (reopened conn conn')
  then show ?case
    by (simp add: stored_hash_def get_file_by_path_def close_and_reopen_def)
qed

lemma try_block_indexed:
  assumes "try_block re sha env max_file_size max_chunk_lines project_id file_path conn result
             = (None, conn1, result1)"
    and "files_indexed result1 = files_indexed result + 1"
  shows "\<exists>content'. read_text (info file_path) = Inr content'
           \<and> stored_hash conn1 (rel_path file_path) = Some (hash_content sha content')
           \<and> stored_hash (close_and_reopen conn1) (rel_path file_path)
               = Some (hash_content sha content')"
  using assms
  by (auto simp: try_block_def Let_def delete_chunks_for_file_files
           split: sum.splits option.splits prod.splits if_splits
           dest!: insert_chunks_files [where p = "rel_path file_path"] upsert_file_same_eq)

lemma process_file_unchanged:
  assumes "stored_hash conn (rel_path file_path) = Some (hash_content sha content')"
    and "read_text (info file_path) = Inr content'"
    and "stat (info file_path) = Inr st"
    and "db_raises env (rel_path file_path) GetFileByPath = None"
  shows "process_file re sha env max_file_size max_chunk_lines project_id file_path conn result
           = (conn, result\<lparr>files_skipped := files_skipped result + 1\<rparr>)"
  using assms
  by (cases st)
     (auto simp: process_file_def try_block_def Let_def stored_hash_def split: option.splits)

lemma scan_loop_later_connection:
  "later_connection p conn0 conn \<Longrightarrow> \<forall>f\<in>set fs. rel_path f \<noteq> p \<Longrightarrow>
   scan_loop re sha env max_files max_file_size max_chunk_lines project_id fs conn result
     = (conn', result') \<Longrightarrow>
   later_connection p conn0 conn'"
proof (induction fs arbitrary: conn result)
  case Nil
  then show ?case by simp
next
  case (Cons f fs)
  show ?case
  proof (cases "files_scanned result \<ge> max_files")
    case True
    with Cons.prems show ?thesis by simp
  next
    case False
    obtain c1 r1 where p: "process_file re sha env max_file_size max_chunk_lines project_id f
        conn (result\<lparr>files_scanned := files_scanned result + 1\<rparr>) = (c1, r1)"
      by (cases "process_file re sha env max_file_size max_chunk_lines project_id f
        conn (result\<lparr>files_scanned := files_scanned result + 1\<rparr>)") auto
    have "later_connection p conn0 c1"
      using Cons.prems(1,2) p by (intro later_connection.other_file [OF _ _ p]) simp_all
    moreover from Cons.prems(3) False p
    have "scan_loop re sha env max_files max_file_size max_chunk_lines project_id fs c1 r1
            = (conn', result')" by simp
    ultimately show ?thesis using Cons.IH Cons.prems(2) by simp
  qed
qed

lemma indexed_once_eq:
  "indexed_once =
     (None,
      \<lparr> working =
          \<lparr> files = [\<lparr> f_id = 1, f_path = ''a.py'', f_hash = ''x'', f_mtime = Some 0,
                       f_size = Some 1, f_lang = Some ''python'', f_indexed_at = 0,
                       f_project_id = None, f_ignored = False \<rparr>],
            chunks = [\<lparr> c_id = 1, c_file_id = 1, c_start_line = 1, c_end_line = 1,
                        c_content = ''x'', c_symbol = None, c_kind = Some ''block'' \<rparr>],
            chunks_fts = [(1, ''x'')], files_seq = 1, chunks_seq = 1 \<rparr>,
        committed =
          \<lparr> files = [\<lparr> f_id = 1, f_path = ''a.py'', f_hash = ''x'', f_mtime = Some 0,
                       f_size = Some 1, f_lang = Some ''python'', f_indexed_at = 0,
                       f_project_id = None, f_ignored = False \<rparr>],
            chunks = [\<lparr> c_id = 1, c_file_id = 1, c_start_line = 1, c_end_line = 1,
                        c_content = ''x'', c_symbol = None, c_kind = Some ''block'' \<rparr>],
            chunks_fts = [(1, ''x'')], files_seq = 1, chunks_seq = 1 \<rparr> \<rparr>,
      \<lparr> files_scanned = 0, files_indexed = 1, files_skipped = 0, chunks_created = 1,
        errors = [], stopped_early = False, duration_ms = 0 \<rparr>)"
  by (simp add: indexed_once_def a_py_def initial_result_def
        try_block_def example_info_def no_faults_def hash_content_def
        example_digest_def get_file_by_path_def empty_connection_def empty_database_def
        lang_py upsert_file_def chunk_content_x insert_chunk_def commit_def Let_def)

text \<open>
  C4. If the \<open>try\<close> block of a run ran to its end for a file and counted it in
  \<open>files_indexed\<close>, then at any later connection, reached by processing other files and
  by reopening the database, processing the file again (its path and text unchanged, its
  \<open>stat\<close> and the lookup of its record not raising) leaves the index as it is, so
  creates no chunk, and increments \<open>files_skipped\<close> and no other counter.
\<close>

theorem unchanged_file_is_skipped:
  assumes "try_block re sha env max_file_size max_chunk_lines project_id file_path conn result
             = (None, conn1, result1)"
    and "files_indexed result1 = files_indexed result + 1"
    and "later_connection (rel_path file_path) conn1 conn2"
    and "rel_path file_path' = rel_path file_path"
    and "read_text (info file_path') = read_text (info file_path)"
    and "stat (info file_path') = Inr st"
    and "db_raises env' (rel_path file_path) GetFileByPath = None"
  shows "process_file re' sha env' max_file_size' max_chunk_lines' project_id' file_path'
           conn2 result2
         = (conn2, result2\<lparr>files_skipped := files_skipped result2 + 1\<rparr>)"
proof -
  from try_block_indexed [OF assms(1,2)]
  obtain content' where c: "read_text (info file_path) = Inr content'"
    and h: "stored_hash conn1 (rel_path file_path) = Some (hash_content sha content')"
           "stored_hash (close_and_reopen conn1) (rel_path file_path)
              = Some (hash_content sha content')"
    by blast
  from later_connection_keeps_hash [OF assms(3) h]
  have "stored_hash conn2 (rel_path file_path') = Some (hash_content sha content')"
    using assms(4) by simp
  then show ?thesis
    using c assms(4-7) by (intro process_file_unchanged) simp_all
qed

theorem unchanged_file_is_skipped_witness:
  "try_block no_match example_digest no_faults 1048576 80 None a_py empty_connection
     initial_result = (None, fst (snd indexed_once), snd (snd indexed_once))
   \<and> files_indexed (snd (snd indexed_once)) = files_indexed initial_result + 1
   \<and> later_connection (rel_path a_py) (fst (snd indexed_once)) later_example
   \<and> rel_path a_py = rel_path a_py
   \<and> read_text (info a_py) = read_text (info a_py)
   \<and> stat (info a_py) = Inr (1, 0)
   \<and> db_raises no_faults (rel_path a_py) GetFileByPath = None
   \<and> process_file no_match example_digest no_faults 1048576 80 None a_py later_example
         initial_result
       = (later_example, initial_result\<lparr>files_skipped := files_skipped initial_result + 1\<rparr>)"
proof -
  have t: "try_block no_match example_digest no_faults 1048576 80 None a_py empty_connection
     initial_result = (None, fst (snd indexed_once), snd (snd indexed_once))"
    unfolding indexed_once_def [symmetric] by (simp add: indexed_once_eq)
  have i: "files_indexed (snd (snd indexed_once)) = files_indexed initial_result + 1"
    by (simp add: indexed_once_eq initial_result_def)
  have l: "later_connection (rel_path a_py) (fst (snd indexed_once)) later_example"
    unfolding later_example_def
    by (rule later_connection.reopened,
        rule later_connection.other_file [OF later_connection.same _ prod.collapse [symmetric]])
       (simp add: a_py_def b_py_def)
  have s: "stat (info a_py) = Inr (1, 0)" by (simp add: a_py_def example_info_def)
  have g: "db_raises no_faults (rel_path a_py) GetFileByPath = None"
    by (simp add: no_faults_def)
  from unchanged_file_is_skipped [OF t i l refl refl s g]
  have "process_file no_match example_digest no_faults 1048576 80 None a_py later_example
         initial_result
       = (later_example, initial_result\<lparr>files_skipped := files_skipped initial_result + 1\<rparr>)" .
  with t i l s g show ?thesis by simp
qed

end
